theory Spec2Isabelle
  imports Complex_Main "HOL-Library.Sublist"
begin

section \<open>The audio prototype (src/main.basic.csound.ts)\<close>

text \<open>
  The class \<open>AudioApp\<close> owns a handle to a Csound session and a flag. Every call into
  the audio engine is awaited and may reject; the outcome of each awaited call and the value
  returned by \<open>Math.random()\<close> are inputs of the model (\<open>engine_env\<close>), one per run of an
  event handler. JavaScript numbers are read as real numbers.

  Everything the program does to the outside world is recorded, in order, in \<open>trace\<close>:
  the calls on the engine and the clicks of the user.
\<close>

text \<open>A score line is either a string literal or a template literal with one interpolated
  number: \<^verbatim>\<open>`i 1 0 2 0.5 ${frequency}`\<close> is \<open>ScoreTemplate ''i 1 0 2 0.5 '' frequency\<close>.\<close>

datatype score_message = ScoreLiteral string | ScoreTemplate string real

datatype engine_call =
    CsoundCreate
  | SetOption string
  | CompileCsdText
  | Start
  | InputMessage score_message
  | Stop

datatype observation = UserClick | Call engine_call

datatype error = Rejected engine_call | ReferenceError string

record engine_env =
  create_ok :: bool
  setOption_ok :: bool
  compile_ok :: bool
  start_ok :: bool
  inputMessage_ok :: bool
  random :: real

record audio_app =
  csound :: "nat option"
  isInitialized :: bool
  clickHandlers :: nat
  buttons :: "(nat \<times> string) list"
  trace :: "observation list"
  console :: "string list"
  fresh :: nat

definition observe :: "observation \<Rightarrow> audio_app \<Rightarrow> audio_app" where
  "observe ob s = s\<lparr>trace := trace s @ [ob]\<rparr>"

text \<open>\<open>playSound\<close> (lines 82-86). The result pairs the exception, if one was thrown, with
  the state the call leaves behind.\<close>

definition playSound :: "engine_env \<Rightarrow> audio_app \<Rightarrow> error option \<times> audio_app" where
  "playSound env s =
     (case csound s of
        None \<Rightarrow> (None, s)
      | Some h \<Rightarrow>
          let frequency = 220 + random env * 660;
              msg = InputMessage (ScoreTemplate ''i 1 0 2 0.5 '' frequency);
              s' = observe (Call msg) s
          in if inputMessage_ok env then (None, s') else (Some (Rejected msg), s'))"

text \<open>\<open>initializeAudio\<close> (lines 48-80): the awaited calls in sequence; the first one that
  rejects ends the function with that exception.\<close>

definition initializeAudio :: "engine_env \<Rightarrow> audio_app \<Rightarrow> error option \<times> audio_app" where
  "initializeAudio env s =
     (let s0 = observe (Call CsoundCreate) s in
      if \<not> create_ok env then (Some (Rejected CsoundCreate), s0)
      else
        let s1 = s0\<lparr>csound := Some (fresh s0), fresh := Suc (fresh s0)\<rparr>;
            s2 = observe (Call (SetOption ''-odac'')) s1
        in if \<not> setOption_ok env then (Some (Rejected (SetOption ''-odac'')), s2)
        else
          let s3 = observe (Call CompileCsdText) s2
          in if \<not> compile_ok env then (Some (Rejected CompileCsdText), s3)
          else
            let s4 = observe (Call Start) s3
            in if \<not> start_ok env then (Some (Rejected Start), s4)
            else
              (case playSound env s4 of
                 (Some e, s5) \<Rightarrow> (Some e, s5)
               | (None, s5) \<Rightarrow> (None, s5\<lparr>isInitialized := True\<rparr>)))"

text \<open>\<open>setupClickHandler\<close> (lines 21-27) registers one more listener on the document;
  \<open>click_listener\<close> is the body of that listener.\<close>

definition setupClickHandler :: "audio_app \<Rightarrow> audio_app" where
  "setupClickHandler s = s\<lparr>clickHandlers := Suc (clickHandlers s)\<rparr>"

definition click_listener :: "engine_env \<Rightarrow> audio_app \<Rightarrow> error option \<times> audio_app" where
  "click_listener env s = (if isInitialized s then playSound env s else (None, s))"

text \<open>\<open>createRetryButton\<close> (lines 29-46) appends a new button to the document body.\<close>

definition createRetryButton :: "audio_app \<Rightarrow> audio_app" where
  "createRetryButton s =
     s\<lparr>buttons := buttons s @ [(fresh s, ''Retry Audio Initialization'')],
       fresh := Suc (fresh s)\<rparr>"

text \<open>\<open>initialize\<close> (lines 11-19): the \<open>catch\<close> handles every exception of
  \<open>initializeAudio\<close>, so the promise it returns is never rejected.\<close>

definition initialize :: "engine_env \<Rightarrow> audio_app \<Rightarrow> error option \<times> audio_app" where
  "initialize env s =
     (case initializeAudio env s of
        (None, s1) \<Rightarrow> (None, setupClickHandler s1)
      | (Some e, s1) \<Rightarrow>
          (None, createRetryButton
                   (s1\<lparr>console := console s1 @ [''Audio initialization failed:'']\<rparr>)))"

text \<open>The \<open>onclick\<close> handler of the retry button \<open>b\<close> (lines 36-43).\<close>

definition retry_onclick :: "nat \<Rightarrow> engine_env \<Rightarrow> audio_app \<Rightarrow> audio_app" where
  "retry_onclick b env s =
     (case initialize env s of
        (None, s1) \<Rightarrow> s1\<lparr>buttons := filter (\<lambda>p. fst p \<noteq> b) (buttons s1)\<rparr>
      | (Some e, s1) \<Rightarrow>
          s1\<lparr>buttons := map (\<lambda>p. if fst p = b then (fst p, ''Failed - Try again'') else p)
                             (buttons s1)\<rparr>)"

text \<open>\<open>dispose\<close> (lines 88-93).\<close>

definition dispose_audio :: "audio_app \<Rightarrow> audio_app" where
  "dispose_audio s =
     (case csound s of
        None \<Rightarrow> s
      | Some h \<Rightarrow> (observe (Call Stop) s)\<lparr>csound := None\<rparr>)"

text \<open>The field initialisers of the class, and \<open>new AudioApp()\<close> (lines 4-9, 96).\<close>

definition initial_audio_app :: audio_app where
  "initial_audio_app =
     \<lparr>csound = None, isInitialized = False, clickHandlers = 0, buttons = [],
      trace = [], console = [], fresh = 0\<rparr>"

definition new_AudioApp :: "engine_env \<Rightarrow> audio_app" where
  "new_AudioApp env = snd (initialize env initial_audio_app)"

text \<open>
  What the user can do afterwards: click somewhere in the document, click a retry button
  that is in the document, or have the page dispose the application. A click runs every
  registered document listener; an exception of a listener is an unhandled rejection and
  changes nothing else.
\<close>

definition engine_works :: "real \<Rightarrow> engine_env" where
  "engine_works r =
     \<lparr>create_ok = True, setOption_ok = True, compile_ok = True, start_ok = True,
      inputMessage_ok = True, random = r\<rparr>"

definition engine_fails :: engine_env where
  "engine_fails =
     \<lparr>create_ok = False, setOption_ok = True, compile_ok = True, start_ok = True,
      inputMessage_ok = True, random = 0\<rparr>"

datatype event = DocumentClick engine_env | RetryClick nat engine_env | Dispose

fun run_listeners :: "nat \<Rightarrow> engine_env \<Rightarrow> audio_app \<Rightarrow> audio_app" where
  "run_listeners 0 env s = s"
| "run_listeners (Suc n) env s = run_listeners n env (snd (click_listener env s))"

fun step :: "event \<Rightarrow> audio_app \<Rightarrow> audio_app" where
  "step (DocumentClick env) s =
     (let s' = observe UserClick s in run_listeners (clickHandlers s') env s')"
| "step (RetryClick b env) s =
     (if b \<in> fst ` set (buttons s)
      then let s' = observe UserClick s
           in retry_onclick b env (run_listeners (clickHandlers s') env s')
      else s)"
| "step Dispose s = dispose_audio s"

fun run :: "event list \<Rightarrow> audio_app \<Rightarrow> audio_app" where
  "run [] s = s"
| "run (ev # evs) s = run evs (step ev s)"

section \<open>The sound handler of src/main.ts.audio_only\<close>

text \<open>\<open>App.handleClick\<close> (lines 272-288) of the audio-only variant of the main file. Its
  \<open>catch\<close> passes the exception to the error handler, which reports it on the console.\<close>

definition handleClick_audio_only :: "engine_env \<Rightarrow> audio_app \<Rightarrow> error option \<times> audio_app" where
  "handleClick_audio_only env s =
     (case csound s of
        None \<Rightarrow> (None, s\<lparr>console := console s @ [''Csound not initialized'']\<rparr>)
      | Some h \<Rightarrow>
          let frequency = 220 + random env * 660;
              msg = InputMessage (ScoreTemplate ''i 1 0 2 0.5 '' frequency);
              s' = observe (Call msg) s
          in if inputMessage_ok env
             then (None, s'\<lparr>console := console s' @ [''Playing sound at frequency:'']\<rparr>)
             else (None, s'\<lparr>console := console s' @ [''Application Error:'']\<rparr>))"


text \<open>\<open>App.initializeCsound\<close> (lines 226-266) of the same file: nothing happens when a
  handle exists already; otherwise the engine is created and configured with seven
  options. The next statement, \<^verbatim>\<open>await this.csound.compileCsdText(csd)\<close> (line 250),
  reads the variable \<open>csd\<close>, which this file neither imports nor declares: evaluating the
  argument throws a \<open>ReferenceError\<close>, and the statements after it (starting the engine,
  the test sound) are never reached. The \<open>catch\<close> reports the exception and throws it
  again.\<close>

definition csound_options :: "string list" where
  "csound_options =
     [''--realtime'', ''--daemon'', ''-m0'', ''-d'', ''-+rtaudio=webaudio'',
      ''--sample-rate=48000'', ''--ksmps=128'']"

definition initializeCsound_failed :: "error \<Rightarrow> audio_app \<Rightarrow> error option \<times> audio_app" where
  "initializeCsound_failed e s =
     (Some e, s\<lparr>console := console s @
        [''Application Error:'', ''Csound initialization failed - audio will be disabled'']\<rparr>)"

definition initializeCsound_audio_only ::
  "engine_env \<Rightarrow> audio_app \<Rightarrow> error option \<times> audio_app" where
  "initializeCsound_audio_only env s =
     (case csound s of
        Some h \<Rightarrow> (None, s)
      | None \<Rightarrow>
          let s0 = observe (Call CsoundCreate) s in
          if \<not> create_ok env then initializeCsound_failed (Rejected CsoundCreate) s0
          else
            let s1 = s0\<lparr>csound := Some (fresh s0), fresh := Suc (fresh s0),
                        console := console s0 @ [''Csound instance created'']\<rparr>
            in if \<not> setOption_ok env
               then initializeCsound_failed (Rejected (SetOption (hd csound_options)))
                      (observe (Call (SetOption (hd csound_options))) s1)
               else
                 let s2 = s1\<lparr>trace := trace s1 @ map (\<lambda>opt. Call (SetOption opt)) csound_options\<rparr>
                 in initializeCsound_failed (ReferenceError ''csd'') s2)"

text \<open>The \<open>onclick\<close> handler of the start button \<open>b\<close> of that file (lines 133-142).\<close>

definition startAudioButton_onclick :: "nat \<Rightarrow> engine_env \<Rightarrow> audio_app \<Rightarrow> audio_app" where
  "startAudioButton_onclick b env s =
     (case initializeCsound_audio_only env s of
        (None, s1) \<Rightarrow> s1\<lparr>buttons := filter (\<lambda>p. fst p \<noteq> b) (buttons s1)\<rparr>
      | (Some e, s1) \<Rightarrow>
          s1\<lparr>buttons := map (\<lambda>p. if fst p = b then (fst p, ''Failed - Click to retry'') else p)
                             (buttons s1),
             console := console s1 @ [''Failed to initialize audio:'', ''Application Error:'']\<rparr>)"

definition is_message :: "observation \<Rightarrow> bool" where
  "is_message ob = (case ob of Call (InputMessage m) \<Rightarrow> True | _ \<Rightarrow> False)"

definition before_first_click :: "observation list \<Rightarrow> observation list" where
  "before_first_click tr = takeWhile (\<lambda>ob. ob \<noteq> UserClick) tr"

text \<open>A stretch of observations is quiet when no score message occurs in it before a
  click does.\<close>

definition quiet :: "observation list \<Rightarrow> bool" where
  "quiet suf = (filter is_message (before_first_click suf) = [])"

section \<open>The 3D application (src/unnamed/part_000)\<close>

text \<open>
  The class \<open>App\<close> owns the scene graph, the camera, the cube, the loaded model, the
  resource registry, the animation state and a handle to the audio engine. The model keeps
  these as fields of the record \<open>app\<close>. Objects, geometries, materials and textures are
  identified by numbers drawn from \<open>next_id\<close>. What the rendering library and the browser
  compute (the raycast of a click, the outcome of the model fetch, the size of a bounding
  box) is an input of the handler that uses it. Calls with an effect outside the program
  (releasing a GPU resource, stopping the engine) are recorded in \<open>calls\<close>, console output
  in \<open>app_console\<close>. Pending \<open>setTimeout\<close> callbacks are kept in \<open>timers\<close> with the time
  in milliseconds at which they are due; \<open>now\<close> is the current time. Coordinates are read
  as real numbers.
\<close>

record vec3 =
  vx :: real
  vy :: real
  vz :: real

definition Vector3 :: "real \<Rightarrow> real \<Rightarrow> real \<Rightarrow> vec3" where
  "Vector3 a b c = \<lparr>vx = a, vy = b, vz = c\<rparr>"

definition vec3_add :: "vec3 \<Rightarrow> vec3 \<Rightarrow> vec3" where
  "vec3_add p d = \<lparr>vx = vx p + vx d, vy = vy p + vy d, vz = vz p + vz d\<rparr>"

definition lengthSq :: "vec3 \<Rightarrow> real" where
  "lengthSq d = vx d * vx d + vy d * vy d + vz d * vz d"

record material =
  material_id :: nat
  material_map :: "nat option"

datatype mesh_material = SingleMaterial material | MaterialArray "material list"

text \<open>An object of the scene graph. \<open>mesh\<close> holds the geometry and the material of an
  instance of \<open>THREE.Mesh\<close> and is \<open>None\<close> for every other kind of object.\<close>

datatype object3d =
  Object3D (object_id: nat) (mesh: "(nat \<times> mesh_material) option") (position: vec3)
    (children: "object3d list")

fun traverse :: "object3d \<Rightarrow> object3d list" where
  "traverse (Object3D i m p cs) = Object3D i m p cs # concat (map traverse cs)"

definition new_object :: "nat \<Rightarrow> vec3 \<Rightarrow> object3d" where
  "new_object i p = Object3D i None p []"

definition new_mesh :: "nat \<Rightarrow> nat \<Rightarrow> mesh_material \<Rightarrow> vec3 \<Rightarrow> object3d" where
  "new_mesh i geometry mat p = Object3D i (Some (geometry, mat)) p []"

datatype lib_call =
    DisposeTexture nat
  | DisposeGeometry nat
  | DisposeMaterial nat
  | RendererDispose
  | RendererForceContextLoss
  | Engine engine_call
  | RemoveEventListener string

datatype timer_callback = StopCubeRotation | StopModelScale

datatype exception = Error string

record resource_manager =
  textures :: "nat list"
  geometries :: "nat list"
  materials :: "material list"

record animation_state =
  cubeRotating :: bool
  modelScaling :: bool

record app =
  scene :: "object3d list"
  camera_position :: vec3
  cube :: object3d
  cube_rotation :: vec3
  model :: "object3d option"
  model_scale :: real
  resourceManager :: resource_manager
  disposed :: bool
  debugMode :: bool
  animationState :: animation_state
  app_csound :: "nat option"
  timers :: "(nat \<times> timer_callback) list"
  now :: nat
  calls :: "lib_call list"
  app_console :: "string list"
  errors :: "string list"
  ui :: "string list"
  next_id :: nat

definition scene_add :: "object3d \<Rightarrow> app \<Rightarrow> app" where
  "scene_add ob s = s\<lparr>scene := scene s @ [ob]\<rparr>"

definition console_log :: "string \<Rightarrow> app \<Rightarrow> app" where
  "console_log msg s = s\<lparr>app_console := app_console s @ [msg]\<rparr>"

definition register_geometry :: "nat \<Rightarrow> app \<Rightarrow> app" where
  "register_geometry g s =
     s\<lparr>resourceManager := (resourceManager s)\<lparr>geometries := geometries (resourceManager s) @ [g]\<rparr>\<rparr>"

definition register_material :: "material \<Rightarrow> app \<Rightarrow> app" where
  "register_material m s =
     s\<lparr>resourceManager := (resourceManager s)\<lparr>materials := materials (resourceManager s) @ [m]\<rparr>\<rparr>"

definition register_texture :: "nat \<Rightarrow> app \<Rightarrow> app" where
  "register_texture t s =
     s\<lparr>resourceManager := (resourceManager s)\<lparr>textures := textures (resourceManager s) @ [t]\<rparr>\<rparr>"

text \<open>
  Modelled from the spec: \<open>App.handleError\<close>, \<open>App.playCsoundEvent\<close> and
  \<open>App.initializeCsound\<close> are called by the class of this file but not defined in it.
  The spec describes the error policy as "catch, log, show a toast": \<open>handleError\<close>
  reports on the console and keeps the message shown to the user in \<open>errors\<close>, as
  \<open>ErrorHandler.handleError\<close> (lines 991-1002) does. \<open>playCsoundEvent\<close> is a parameter of
  \<open>handleClick\<close>: given the engine handle it yields the exception it ends with, if any, and
  the calls it makes on the engine.
\<close>

definition handleError :: "string \<Rightarrow> app \<Rightarrow> app" where
  "handleError msg s = (console_log ''Application Error:'' s)\<lparr>errors := errors s @ [msg]\<rparr>"

subsection \<open>Construction of the scene\<close>

text \<open>\<open>setupLights\<close> (lines 178-195).\<close>

definition setupLights :: "app \<Rightarrow> app" where
  "setupLights s =
     (let n = next_id s;
          directionalLight = new_object n (Vector3 5 5 5);
          ambientLight = new_object (n + 1) (Vector3 0 0 0);
          pointLight = new_object (n + 2) (Vector3 (-5) 3 (-5))
      in (scene_add pointLight (scene_add ambientLight (scene_add directionalLight s)))
           \<lparr>next_id := n + 3\<rparr>)"

text \<open>\<open>createEnvironment\<close> (lines 201-223).\<close>

definition createEnvironment :: "app \<Rightarrow> app" where
  "createEnvironment s =
     (let n = next_id s;
          floorGeometry = n;
          floorMaterial = \<lparr>material_id = n + 1, material_map = None\<rparr>;
          floor = new_mesh (n + 2) floorGeometry (SingleMaterial floorMaterial) (Vector3 0 0 0);
          s1 = register_material floorMaterial
                 (register_geometry floorGeometry (scene_add floor (s\<lparr>next_id := n + 3\<rparr>)))
      in if debugMode s1
         then (scene_add (new_object (n + 3) (Vector3 0 0 0)) s1)\<lparr>next_id := n + 4\<rparr>
         else s1)"

text \<open>\<open>createCube\<close> (lines 229-282). \<open>load_cube_materials\<close> is the \<open>map\<close> over the texture
  paths: each step loads one texture, registers it, builds the material that has it as
  its map and registers that. The loader reports a failed download through a callback
  later; nothing in the \<open>try\<close> block throws.\<close>

definition texturePaths :: "string list" where
  "texturePaths =
     [''autumn_ground.jpg'', ''lakeSide.jpg'', ''ruinOfFishermansFactory.jpg'',
      ''wave.jpg'', ''kareha.jpg'', ''pebble.jpg'']"

fun load_cube_materials :: "string list \<Rightarrow> app \<Rightarrow> material list \<times> app" where
  "load_cube_materials [] s = ([], s)"
| "load_cube_materials (path # paths) s =
     (let texture = next_id s;
          mat = \<lparr>material_id = next_id s + 1, material_map = Some texture\<rparr>;
          s1 = register_material mat (register_texture texture (s\<lparr>next_id := next_id s + 2\<rparr>));
          r = load_cube_materials paths s1
      in (mat # fst r, snd r))"

definition createCube :: "app \<Rightarrow> app" where
  "createCube s =
     (let geometry = next_id s;
          r = load_cube_materials texturePaths (s\<lparr>next_id := next_id s + 1\<rparr>);
          s1 = snd r;
          cube_mesh = new_mesh (next_id s1) geometry (MaterialArray (fst r)) (Vector3 2 4 2);
          s2 = scene_add cube_mesh (s1\<lparr>next_id := next_id s1 + 1\<rparr>)
      in (register_geometry geometry s2)\<lparr>cube := cube_mesh\<rparr>)"

text \<open>The constructor (lines 61-130) up to the point where the asynchronous work starts.
  The record needs a value for \<open>cube\<close> before \<open>createCube\<close> has run; \<open>createCube\<close> replaces
  it. The statistics panel and the instructions panel are the two elements that the
  constructor appends to the document.\<close>

definition empty_app :: "bool \<Rightarrow> app" where
  "empty_app debug =
     \<lparr>scene = [], camera_position = Vector3 5 5 5, cube = new_object 0 (Vector3 0 0 0),
      cube_rotation = Vector3 0 0 0, model = None, model_scale = 1,
      resourceManager = \<lparr>textures = [], geometries = [], materials = []\<rparr>,
      disposed = False, debugMode = debug,
      animationState = \<lparr>cubeRotating = False, modelScaling = False\<rparr>,
      app_csound = None, timers = [], now = 0, calls = [], app_console = [], errors = [],
      ui = [], next_id = 1\<rparr>"

definition new_App :: "bool \<Rightarrow> app" where
  "new_App debug =
     (let s1 = (empty_app debug)\<lparr>ui := [''stats'']\<rparr>;
          s2 = createCube (createEnvironment (setupLights s1))
      in s2\<lparr>ui := ui s2 @ [''instructions'']\<rparr>)"

subsection \<open>Animations and timers\<close>

text \<open>\<open>resetAnimations\<close> (lines 717-732).\<close>

definition resetAnimations :: "app \<Rightarrow> app" where
  "resetAnimations s =
     (let s1 = s\<lparr>animationState := \<lparr>cubeRotating = False, modelScaling = False\<rparr>\<rparr>;
          s2 = (case model s1 of None \<Rightarrow> s1 | Some m \<Rightarrow> s1\<lparr>model_scale := 3\<rparr>);
          s3 = s2\<lparr>cube_rotation := Vector3 0 0 0\<rparr>
      in if debugMode s3 then console_log ''Animations reset'' s3 else s3)"

definition setTimeout :: "timer_callback \<Rightarrow> nat \<Rightarrow> app \<Rightarrow> app" where
  "setTimeout cb delay s = s\<lparr>timers := timers s @ [(now s + delay, cb)]\<rparr>"

text \<open>\<open>startCubeRotation\<close> (lines 681-694) and \<open>startModelScale\<close> (lines 699-712).\<close>

definition startCubeRotation :: "app \<Rightarrow> app" where
  "startCubeRotation s =
     setTimeout StopCubeRotation 5000
       (s\<lparr>animationState := (animationState s)\<lparr>cubeRotating := True\<rparr>\<rparr>)"

definition startModelScale :: "app \<Rightarrow> app" where
  "startModelScale s =
     setTimeout StopModelScale 5000
       (s\<lparr>animationState := (animationState s)\<lparr>modelScaling := True\<rparr>\<rparr>)"

text \<open>The bodies of the two timer callbacks (lines 685-693 and 703-711).\<close>

fun run_callback :: "timer_callback \<Rightarrow> app \<Rightarrow> app" where
  "run_callback StopCubeRotation s =
     (if \<not> disposed s
      then let s1 = s\<lparr>animationState := (animationState s)\<lparr>cubeRotating := False\<rparr>\<rparr>
           in if debugMode s1 then console_log ''Cube rotation completed'' s1 else s1
      else s)"
| "run_callback StopModelScale s =
     (if \<not> disposed s
      then let s1 = s\<lparr>animationState := (animationState s)\<lparr>modelScaling := False\<rparr>\<rparr>
           in if debugMode s1 then console_log ''Model scaling completed'' s1 else s1
      else s)"

text \<open>The event loop of the browser: when \<open>dt\<close> milliseconds pass and no other event
  arrives, the callbacks that have become due run in the order of their due times.\<close>

fun run_callbacks :: "timer_callback list \<Rightarrow> app \<Rightarrow> app" where
  "run_callbacks [] s = s"
| "run_callbacks (cb # cbs) s = run_callbacks cbs (run_callback cb s)"

definition advance :: "nat \<Rightarrow> app \<Rightarrow> app" where
  "advance dt s =
     (let t = now s + dt;
          ready = filter (\<lambda>p. fst p \<le> t) (timers s);
          waiting = filter (\<lambda>p. \<not> fst p \<le> t) (timers s)
      in run_callbacks (map snd (sort_key fst ready)) (s\<lparr>now := t, timers := waiting\<rparr>))"

subsection \<open>Input handlers\<close>

text \<open>\<open>String.prototype.toLowerCase\<close> on the characters a key name can contain.\<close>

definition toLowerCase_char :: "char \<Rightarrow> char" where
  "toLowerCase_char c =
     (case map_of (zip ''ABCDEFGHIJKLMNOPQRSTUVWXYZ'' ''abcdefghijklmnopqrstuvwxyz'') c of
        Some l \<Rightarrow> l
      | None \<Rightarrow> c)"

definition toLowerCase :: "string \<Rightarrow> string" where
  "toLowerCase k = map toLowerCase_char k"

text \<open>\<open>handleKeyDown\<close> (lines 636-676). \<open>moveDistance\<close> is the vector chosen by the
  \<open>switch\<close>; the \<open>escape\<close> case resets the animations and leaves it zero.\<close>

definition moveSpeed :: real where
  "moveSpeed = 0.1"

definition moveDistance :: "string \<Rightarrow> vec3" where
  "moveDistance k =
     (if k = ''w'' then Vector3 0 0 (- moveSpeed)
      else if k = ''s'' then Vector3 0 0 moveSpeed
      else if k = ''a'' then Vector3 (- moveSpeed) 0 0
      else if k = ''d'' then Vector3 moveSpeed 0 0
      else if k = ''q'' then Vector3 0 moveSpeed 0
      else if k = ''e'' then Vector3 0 (- moveSpeed) 0
      else Vector3 0 0 0)"

definition handleKeyDown :: "string \<Rightarrow> app \<Rightarrow> app" where
  "handleKeyDown key s =
     (let k = toLowerCase key;
          s1 = (if k = ''escape'' then resetAnimations s else s);
          s2 = s1\<lparr>camera_position := vec3_add (camera_position s1) (moveDistance k)\<rparr>
      in if debugMode s2 \<and> lengthSq (moveDistance k) > 0
         then console_log ''Camera position:'' s2
         else s2)"

text \<open>\<open>handleClick\<close> (lines 566-606). \<open>intersects\<close> is what
  \<open>raycaster.intersectObjects\<close> returns for the cube and the model: the objects hit, each
  with its distance, nearest first. The raycaster descends into the children of the objects
  it is given and reports the objects whose geometry the ray meets: the cube, or a mesh
  below the model, never a group that only contains meshes. Only \<open>intersects[0]\<close> is
  read.\<close>

definition handleClick ::
  "(nat option \<Rightarrow> exception option \<times> engine_call list) \<Rightarrow> (nat \<times> real) list \<Rightarrow> app \<Rightarrow> app" where
  "handleClick playCsoundEvent intersects s =
     (case intersects of
        [] \<Rightarrow> s
      | hit # others \<Rightarrow>
          let intersectedObject = fst hit;
              s1 = (if intersectedObject = object_id (cube s)
                    then let s' = startCubeRotation s;
                             r = playCsoundEvent (app_csound s');
                             s'' = s'\<lparr>calls := calls s' @ map Engine (snd r)\<rparr>
                         in (case fst r of None \<Rightarrow> s'' | Some (Error msg) \<Rightarrow> handleError msg s'')
                    else (case model s of
                            None \<Rightarrow> s
                          | Some m \<Rightarrow>
                              if intersectedObject = object_id m then startModelScale s else s))
          in if debugMode s1 then console_log ''Clicked object:'' s1 else s1)"

subsection \<open>Disposal\<close>

text \<open>\<open>clearScene\<close> (lines 905-922): \<open>disposeNode\<close> gives the releases made for one node
  of the scene graph.\<close>

definition disposeNode :: "object3d \<Rightarrow> lib_call list" where
  "disposeNode node =
     (case mesh node of
        None \<Rightarrow> []
      | Some (geometry, mat) \<Rightarrow>
          DisposeGeometry geometry #
            (case mat of
               MaterialArray ms \<Rightarrow> map (\<lambda>m. DisposeMaterial (material_id m)) ms
             | SingleMaterial m \<Rightarrow> [DisposeMaterial (material_id m)]))"

definition clearScene :: "app \<Rightarrow> app" where
  "clearScene s =
     s\<lparr>calls := calls s @ concat (map disposeNode (concat (map traverse (scene s)))),
       scene := []\<rparr>"

text \<open>\<open>disposeThreeJsResources\<close> (lines 872-900).\<close>

definition dispose_material :: "material \<Rightarrow> lib_call list" where
  "dispose_material m =
     (case material_map m of None \<Rightarrow> [] | Some t \<Rightarrow> [DisposeTexture t])
       @ [DisposeMaterial (material_id m)]"

definition disposeThreeJsResources :: "app \<Rightarrow> app" where
  "disposeThreeJsResources s =
     (let rm = resourceManager s;
          s1 = s\<lparr>calls := calls s @ map DisposeTexture (textures rm)\<rparr>;
          s2 = s1\<lparr>calls := calls s1 @ map DisposeGeometry (geometries rm)\<rparr>;
          s3 = s2\<lparr>calls := calls s2 @ concat (map dispose_material (materials rm))\<rparr>;
          s4 = s3\<lparr>calls := calls s3 @ [RendererDispose, RendererForceContextLoss]\<rparr>;
          s5 = clearScene s4
      in s5\<lparr>resourceManager := \<lparr>textures = [], geometries = [], materials = []\<rparr>\<rparr>)"

text \<open>\<open>cleanupUIComponents\<close> (lines 927-937).\<close>

definition cleanupUIComponents :: "app \<Rightarrow> app" where
  "cleanupUIComponents s =
     s\<lparr>ui := filter (\<lambda>e. e \<noteq> ''stats'' \<and> e \<noteq> ''instructions'') (ui s)\<rparr>"

text \<open>\<open>dispose\<close> (lines 836-867). The rejection of \<open>csound.stop()\<close> would reach
  \<open>handleError\<close> later and has no part in what \<open>dispose\<close> itself does.\<close>

definition dispose :: "app \<Rightarrow> app" where
  "dispose s =
     (if disposed s then s
      else
        let s1 = (console_log ''Starting application disposal...'' s)\<lparr>disposed := True\<rparr>;
            s2 = resetAnimations s1;
            s3 = (case app_csound s2 of
                    None \<Rightarrow> s2
                  | Some h \<Rightarrow> s2\<lparr>calls := calls s2 @ [Engine Stop], app_csound := None\<rparr>);
            s4 = s3\<lparr>calls := calls s3 @
                       [RemoveEventListener ''resize'', RemoveEventListener ''beforeunload'']\<rparr>;
            s5 = disposeThreeJsResources s4;
            s6 = cleanupUIComponents s5
        in console_log ''Application disposed successfully'' s6)"

text \<open>The calls that \<open>dispose\<close> adds to the record of calls.\<close>

definition released :: "app \<Rightarrow> lib_call list" where
  "released s = drop (length (calls s)) (calls (dispose s))"

subsection \<open>Vocabulary of the claims about clicks and keys\<close>

text \<open>A click hits the cube, or the model, when the nearest intersection is that object.\<close>

definition hits_cube :: "(nat \<times> real) list \<Rightarrow> app \<Rightarrow> bool" where
  "hits_cube intersects s =
     (case intersects of [] \<Rightarrow> False | hit # others \<Rightarrow> fst hit = object_id (cube s))"

definition hits_model :: "(nat \<times> real) list \<Rightarrow> app \<Rightarrow> bool" where
  "hits_model intersects s =
     (case intersects of
        [] \<Rightarrow> False
      | hit # others \<Rightarrow> (case model s of None \<Rightarrow> False | Some m \<Rightarrow> fst hit = object_id m))"

text \<open>The sound that the older variants of the file play when the cube is clicked
  (src/main.ts.old lines 223-225, src/main.ts.bak2 lines 597-601), as a value for the
  parameter \<open>playCsoundEvent\<close>.\<close>

definition playCsoundEvent_old :: "nat option \<Rightarrow> exception option \<times> engine_call list" where
  "playCsoundEvent_old h =
     (case h of
        None \<Rightarrow> (None, [])
      | Some c \<Rightarrow> (None, [InputMessage (ScoreLiteral ''i 1 0 5 0.3 220'')]))"

definition movement_keys :: "string list" where
  "movement_keys = [''w'', ''s'', ''a'', ''d'', ''q'', ''e'']"

text \<open>The materials of the six faces of the cube, as the constructor numbers them.\<close>

definition cube_materials :: "material list" where
  "cube_materials =
     [\<lparr>material_id = 9, material_map = Some 8\<rparr>, \<lparr>material_id = 11, material_map = Some 10\<rparr>,
      \<lparr>material_id = 13, material_map = Some 12\<rparr>, \<lparr>material_id = 15, material_map = Some 14\<rparr>,
      \<lparr>material_id = 17, material_map = Some 16\<rparr>, \<lparr>material_id = 19, material_map = Some 18\<rparr>]"

subsection \<open>Loading the model\<close>

text \<open>\<open>createErrorModel\<close> (lines 441-454): a wireframe sphere at the place of the model.\<close>

definition createErrorModel :: "app \<Rightarrow> app" where
  "createErrorModel s =
     (let n = next_id s;
          geometry = n;
          mat = \<lparr>material_id = n + 1, material_map = None\<rparr>;
          errorSphere = new_mesh (n + 2) geometry (SingleMaterial mat) (Vector3 (- 2) 1 0);
          s1 = scene_add errorSphere (s\<lparr>next_id := n + 3\<rparr>)
      in register_material mat (register_geometry geometry s1))"

text \<open>\<open>setupModelMesh\<close> (lines 379-408) gives the mesh a new material and registers that
  material and the geometry of the mesh. It is called on meshes only.\<close>

definition setupModelMesh :: "object3d \<Rightarrow> app \<Rightarrow> object3d \<times> app" where
  "setupModelMesh m s =
     (case mesh m of
        None \<Rightarrow> (m, s)
      | Some gm \<Rightarrow>
          let mat = \<lparr>material_id = next_id s, material_map = None\<rparr>;
              s1 = register_material mat (s\<lparr>next_id := next_id s + 1\<rparr>)
          in (Object3D (object_id m) (Some (fst gm, SingleMaterial mat)) (position m) (children m),
              register_geometry (fst gm) s1))"

text \<open>The traversal of lines 330-335: every mesh of the model is counted and set up, the
  object first, then its children in order.\<close>

fun setup_meshes :: "object3d \<Rightarrow> app \<times> nat \<Rightarrow> object3d \<times> app \<times> nat"
  and setup_meshes_list :: "object3d list \<Rightarrow> app \<times> nat \<Rightarrow> object3d list \<times> app \<times> nat" where
  "setup_meshes (Object3D i m p cs) acc =
     (let r = (case m of
                 None \<Rightarrow> (Object3D i m p cs, acc)
               | Some gm \<Rightarrow>
                   (fst (setupModelMesh (Object3D i m p cs) (fst acc)),
                    snd (setupModelMesh (Object3D i m p cs) (fst acc)), Suc (snd acc)));
          rs = setup_meshes_list cs (snd r)
      in (Object3D i (mesh (fst r)) p (fst rs), snd rs))"
| "setup_meshes_list [] acc = ([], acc)"
| "setup_meshes_list (c # cs) acc =
     (let r = setup_meshes c acc;
          rs = setup_meshes_list cs (snd r)
      in (fst r # fst rs, snd rs))"

text \<open>\<open>addModelDebugHelpers\<close> (lines 414-435): a box helper in the scene, an axes helper
  under the model and a wireframe under every mesh of the model. None of them is a mesh.\<close>

fun add_wireframes :: "object3d \<Rightarrow> nat \<Rightarrow> object3d \<times> nat"
  and add_wireframes_list :: "object3d list \<Rightarrow> nat \<Rightarrow> object3d list \<times> nat" where
  "add_wireframes (Object3D i m p cs) n =
     (case m of
        None \<Rightarrow> (let rs = add_wireframes_list cs n in (Object3D i m p (fst rs), snd rs))
      | Some gm \<Rightarrow>
          (let rs = add_wireframes_list cs (Suc n)
           in (Object3D i m p (fst rs @ [new_object n (Vector3 0 0 0)]), snd rs)))"
| "add_wireframes_list [] n = ([], n)"
| "add_wireframes_list (c # cs) n =
     (let r = add_wireframes c n;
          rs = add_wireframes_list cs (snd r)
      in (fst r # fst rs, snd rs))"

definition addModelDebugHelpers :: "app \<Rightarrow> app" where
  "addModelDebugHelpers s =
     (case model s of
        None \<Rightarrow> s
      | Some m \<Rightarrow>
          if \<not> debugMode s then s
          else
            let n = next_id s;
                s1 = scene_add (new_object n (Vector3 0 0 0)) s;
                m1 = Object3D (object_id m) (mesh m) (position m)
                       (children m @ [new_object (n + 1) (Vector3 0 0 0)]);
                r = add_wireframes m1 (n + 2)
            in s1\<lparr>model := Some (fst r), next_id := snd r\<rparr>)"

text \<open>\<open>setupLoadedModel\<close> (lines 325-373). \<open>size_length\<close> is \<open>size.length()\<close> of the
  bounding box that the library computes for the placed model. \<open>setupLoadedModel_try\<close> is
  the \<open>try\<close> block: it ends normally or with the exception thrown.\<close>

definition setupLoadedModel_try :: "real \<Rightarrow> object3d \<Rightarrow> app \<Rightarrow> exception option \<times> app" where
  "setupLoadedModel_try size_length m s =
     (let r = setup_meshes m (s, 0);
          s1 = (fst (snd r))\<lparr>model := Some (fst r)\<rparr>;
          meshCount = snd (snd r)
      in if meshCount = 0 then (Some (Error ''No meshes found in loaded model''), s1)
         else
           let m1 = fst r;
               m2 = Object3D (object_id m1) (mesh m1) (Vector3 (- 2) 1 0) (children m1);
               s2 = s1\<lparr>model := Some m2, model_scale := 3\<rparr>;
               s3 = (if debugMode s2 then addModelDebugHelpers s2 else s2)
           in if size_length = 0 then (Some (Error ''Model has zero dimensions''), s3)
              else
                let s4 = (case model s3 of None \<Rightarrow> s3 | Some m3 \<Rightarrow> scene_add m3 s3)
                in (None, if debugMode s4
                          then console_log ''Model setup completed successfully'' s4
                          else s4))"

definition setupLoadedModel :: "real \<Rightarrow> app \<Rightarrow> app" where
  "setupLoadedModel size_length s =
     (case model s of
        None \<Rightarrow> s
      | Some m \<Rightarrow>
          (case setupLoadedModel_try size_length m s of
             (None, s1) \<Rightarrow> s1
           | (Some (Error msg), s1) \<Rightarrow> createErrorModel ((handleError msg s1)\<lparr>model := None\<rparr>)))"

text \<open>\<open>loadModel\<close> (lines 288-319). The fetch either rejects or delivers the scene of the
  file. \<open>loadModel_try\<close> is the \<open>try\<close> block; the result of \<open>loadModel\<close> carries the
  exception with which the returned promise is rejected, if there is one.\<close>

datatype fetch_result = FetchRejected string | Fetched object3d real

definition loadModel_try :: "fetch_result \<Rightarrow> app \<Rightarrow> exception option \<times> app" where
  "loadModel_try r s =
     (case r of
        FetchRejected e \<Rightarrow> (Some (Error e), s)
      | Fetched gltf_scene size_length \<Rightarrow>
          (None, setupLoadedModel size_length (s\<lparr>model := Some gltf_scene\<rparr>)))"

definition loadModel :: "fetch_result \<Rightarrow> app \<Rightarrow> exception option \<times> app" where
  "loadModel r s =
     (case loadModel_try r s of
        (None, s1) \<Rightarrow> (None, s1)
      | (Some (Error e), s1) \<Rightarrow>
          (None, createErrorModel (handleError (''Failed to load model: '' @ e) s1)))"

text \<open>The meshes of a loaded scene, and the outcomes of the fetch that count as a failure:
  the fetch rejects, the scene has no mesh, or its bounding box is empty.\<close>

definition meshes :: "object3d \<Rightarrow> object3d list" where
  "meshes g = filter (\<lambda>node. mesh node \<noteq> None) (traverse g)"



text \<open>The application after the model file, here a scene that is a single mesh, has been
  loaded and set up.\<close>

definition loaded_app :: app where
  "loaded_app =
     snd (loadModel
            (Fetched (new_mesh 100 101 (SingleMaterial \<lparr>material_id = 102, material_map = None\<rparr>)
                        (Vector3 0 0 0)) 1)
            (new_App False))"

text \<open>The application after a model file has been loaded as the loader delivers it: the
  scene of the file is a group (\<open>AssetLoader.loadModel\<close> in src/unnamed/part_001 types it
  as \<open>THREE.Group\<close>), here with one mesh below it. A click hits the loaded model when the
  nearest intersection is one of the meshes of the model.\<close>

definition app_with_model :: app where
  "app_with_model =
     snd (loadModel
            (Fetched (Object3D 100 None (Vector3 0 0 0)
                        [new_mesh 106 107
                           (SingleMaterial \<lparr>material_id = 108, material_map = None\<rparr>)
                           (Vector3 0 0 0)]) 1)
            (new_App False))"

definition hits_loaded_model :: "(nat \<times> real) list \<Rightarrow> app \<Rightarrow> bool" where
  "hits_loaded_model intersects s =
     (case intersects of
        [] \<Rightarrow> False
      | hit # others \<Rightarrow>
          (case model s of
             None \<Rightarrow> False
           | Some m \<Rightarrow> fst hit \<in> object_id ` set (meshes m)))"

section \<open>The instrument (csound/synth.csd)\<close>

text \<open>
  Instrument 1 of the orchestra (lines 11-21). An audio-rate variable is a signal: a
  function from the index of a sample to its value. The oscillator \<open>poscil\<close> is an opcode of
  the engine and a parameter here: \<open>poscil amp freq\<close> is the signal it produces for an
  amplitude and a frequency. \<open>p4\<close> and \<open>p5\<close> are the fourth and fifth field of the score
  event that starts the instrument; the result is the pair of signals that \<open>outs\<close> writes
  to the left and to the right channel. Sample values and frequencies are read as real
  numbers.
\<close>

type_synonym signal = "nat \<Rightarrow> real"

definition instr_1 :: "(real \<Rightarrow> real \<Rightarrow> signal) \<Rightarrow> real \<Rightarrow> real \<Rightarrow> signal \<times> signal" where
  "instr_1 poscil p4 p5 =
     (let iamp = p4;
          ifreq = p5;
          a1 = poscil iamp ifreq;
          a2 = poscil iamp (ifreq * 1.5);
          a3 = poscil iamp (ifreq * 2);
          aout = (\<lambda>n. (a1 n + a2 n + a3 n) * 0.3)
      in (aout, aout))"

section \<open>Sound playback\<close>

text \<open>
  Claim C4. When the engine handle is set, the click listener of an initialised application
  (and \<open>handleClick\<close> of the audio-only variant) sends exactly one message to the engine:
  the score event \<open>i 1 0 2 0.5 f\<close> with \<open>f = 220 + 660 * random\<close>, and \<open>220 \<le> f < 880\<close>
  for every random value in \<open>[0, 1)\<close>.
\<close>

theorem playSound_score_event:
  assumes "csound s = Some h" and "isInitialized s"
    and "0 \<le> random env" and "random env < 1"
  shows "trace (snd (click_listener env s))
           = trace s @ [Call (InputMessage (ScoreTemplate ''i 1 0 2 0.5 '' (220 + 660 * random env)))]
       \<and> trace (snd (handleClick_audio_only env s))
           = trace s @ [Call (InputMessage (ScoreTemplate ''i 1 0 2 0.5 '' (220 + 660 * random env)))]
       \<and> 220 \<le> 220 + 660 * random env \<and> 220 + 660 * random env < 880"
  using assms
  by (simp add: click_listener_def playSound_def handleClick_audio_only_def observe_def
      Let_def mult.commute)

theorem playSound_score_event_witness:
  "trace (snd (click_listener (engine_works (1/2))
       (initial_audio_app\<lparr>csound := Some 0, isInitialized := True\<rparr>)))
     = [Call (InputMessage (ScoreTemplate ''i 1 0 2 0.5 '' 550))]"
  using playSound_score_event [of "initial_audio_app\<lparr>csound := Some 0, isInitialized := True\<rparr>" 0
      "engine_works (1/2)"]
  by (simp add: initial_audio_app_def engine_works_def)

text \<open>
  Claim C8. With no engine handle, \<open>playSound\<close>, the click listener and \<open>handleClick\<close> of
  the audio-only variant return normally and send nothing to the engine.
\<close>

theorem playSound_without_engine:
  assumes "csound s = None"
  shows "playSound env s = (None, s)
       \<and> click_listener env s = (None, s)
       \<and> fst (handleClick_audio_only env s) = None
       \<and> trace (snd (handleClick_audio_only env s)) = trace s"
  using assms
  by (simp add: click_listener_def playSound_def handleClick_audio_only_def)

theorem playSound_without_engine_witness:
  "playSound (engine_works 0) initial_audio_app = (None, initial_audio_app)
   \<and> click_listener (engine_works 0) initial_audio_app = (None, initial_audio_app)"
  using playSound_without_engine [of initial_audio_app "engine_works 0"]
  by (simp add: initial_audio_app_def)

section \<open>When sound is sent to the engine\<close>

text \<open>Every handler only appends to the trace.\<close>

lemma playSound_prefix: "prefix (trace s) (trace (snd (playSound env s)))"
  by (simp add: playSound_def observe_def Let_def split: option.splits)

lemma click_listener_prefix: "prefix (trace s) (trace (snd (click_listener env s)))"
  by (simp add: click_listener_def playSound_prefix)

lemma run_listeners_prefix: "prefix (trace s) (trace (run_listeners n env s))"
proof (induction n arbitrary: s)
  case 0
  then show ?case by simp
next
  case (Suc n)
  have "prefix (trace s) (trace (snd (click_listener env s)))"
    by (rule click_listener_prefix)
  also have "prefix \<dots> (trace (run_listeners n env (snd (click_listener env s))))"
    by (rule Suc.IH)
  finally show ?case by simp
qed

lemma initializeAudio_prefix: "prefix (trace s) (trace (snd (initializeAudio env s)))"
  by (auto simp add: initializeAudio_def playSound_def observe_def Let_def split: option.splits prod.splits)

lemma initialize_prefix: "prefix (trace s) (trace (snd (initialize env s)))"
  using initializeAudio_prefix [of s env]
  by (auto simp add: initialize_def setupClickHandler_def createRetryButton_def split: option.splits prod.splits)

lemma retry_onclick_prefix: "prefix (trace s) (trace (retry_onclick b env s))"
  using initialize_prefix [of s env]
  by (auto simp add: retry_onclick_def split: option.splits prod.splits)

lemma quiet_append:
  assumes "quiet a" and "quiet b"
  shows "quiet (a @ b)"
proof (cases "\<forall>x\<in>set a. x \<noteq> UserClick")
  case True
  then have "takeWhile (\<lambda>ob. ob \<noteq> UserClick) a = a"
    by (simp add: takeWhile_eq_all_conv)
  with True assms show ?thesis
    by (simp add: quiet_def before_first_click_def takeWhile_append)
next
  case False
  with assms show ?thesis
    by (auto simp add: quiet_def before_first_click_def takeWhile_append)
qed

lemma step_suffix: "\<exists>suf. trace (step ev s) = trace s @ suf \<and> quiet suf"
proof (cases ev)
  case (DocumentClick env)
  obtain suf where "trace (run_listeners (clickHandlers (observe UserClick s)) env (observe UserClick s)) = trace (observe UserClick s) @ suf"
    using run_listeners_prefix unfolding prefix_def by blast
  then have "trace (step ev s) = trace s @ (UserClick # suf)"
    using DocumentClick by (simp add: observe_def Let_def)
  moreover have "quiet (UserClick # suf)" by (simp add: quiet_def before_first_click_def)
  ultimately show ?thesis by blast
next
  case (RetryClick b env)
  show ?thesis
  proof (cases "b \<in> fst ` set (buttons s)")
    case True
    let ?s' = "observe UserClick s"
    obtain suf where s1: "trace (run_listeners (clickHandlers ?s') env ?s') = trace ?s' @ suf"
      using run_listeners_prefix unfolding prefix_def by blast
    obtain suf2 where "trace (retry_onclick b env (run_listeners (clickHandlers ?s') env ?s')) = trace (run_listeners (clickHandlers ?s') env ?s') @ suf2"
      using retry_onclick_prefix unfolding prefix_def by blast
    with s1 have "trace (step ev s) = trace s @ (UserClick # suf @ suf2)"
      using RetryClick True by (simp add: observe_def Let_def)
    moreover have "quiet (UserClick # suf @ suf2)" by (simp add: quiet_def before_first_click_def)
    ultimately show ?thesis by blast
  next
    case False
    then have "trace (step ev s) = trace s @ []" using RetryClick by simp
    moreover have "quiet []" by (simp add: quiet_def before_first_click_def)
    ultimately show ?thesis by blast
  qed
next
  case Dispose
  show ?thesis
  proof (cases "csound s")
    case None
    then have "trace (step ev s) = trace s @ []" using Dispose by (simp add: dispose_audio_def)
    moreover have "quiet []" by (simp add: quiet_def before_first_click_def)
    ultimately show ?thesis by blast
  next
    case (Some h)
    then have "trace (step ev s) = trace s @ [Call Stop]" using Dispose by (simp add: dispose_audio_def observe_def)
    moreover have "quiet [Call Stop]" by (simp add: quiet_def before_first_click_def is_message_def)
    ultimately show ?thesis by blast
  qed
qed

lemma run_suffix: "\<exists>suf. trace (run evs s) = trace s @ suf \<and> quiet suf"
proof (induction evs arbitrary: s)
  case Nil
  have "trace (run [] s) = trace s @ []" by simp
  moreover have "quiet []" by (simp add: quiet_def before_first_click_def)
  ultimately show ?case by blast
next
  case (Cons ev evs)
  obtain a where a: "trace (step ev s) = trace s @ a" "quiet a" using step_suffix by blast
  obtain b where b: "trace (run evs (step ev s)) = trace (step ev s) @ b" "quiet b" using Cons.IH by blast
  have "trace (run (ev # evs) s) = trace s @ (a @ b)" using a b by simp
  moreover have "quiet (a @ b)" using a(2) b(2) by (rule quiet_append)
  ultimately show ?case by blast
qed

lemma new_no_click: "UserClick \<notin> set (trace (new_AudioApp env))"
  by (auto simp add: new_AudioApp_def initialize_def initializeAudio_def playSound_def observe_def
      initial_audio_app_def setupClickHandler_def createRetryButton_def Let_def split: option.splits prod.splits)

lemma new_one_message: "length (filter is_message (trace (new_AudioApp env))) \<le> 1"
  by (auto simp add: new_AudioApp_def initialize_def initializeAudio_def playSound_def observe_def is_message_def
      initial_audio_app_def setupClickHandler_def createRetryButton_def Let_def split: option.splits prod.splits)

text \<open>
  Claim C3, as stated, fails: constructing the application with an engine that starts
  without a user gesture sends the score event of \<open>playSound\<close> (line 78) although nobody
  has clicked.
\<close>

theorem sound_before_first_click:
  "Call (InputMessage (ScoreTemplate ''i 1 0 2 0.5 '' 220)) \<in> set (trace (new_AudioApp (engine_works 0)))
   \<and> UserClick \<notin> set (trace (new_AudioApp (engine_works 0)))"
  by (simp add: new_AudioApp_def initialize_def initializeAudio_def playSound_def observe_def
      engine_works_def initial_audio_app_def setupClickHandler_def Let_def)

text \<open>
  Claim C3, amended. Whatever the engine does and whatever the user does afterwards, the
  score messages sent before the first click are those of the constructor, and the
  constructor sends at most one: the sound that ends a successful \<open>initializeAudio\<close>.
  Every other score message is preceded by a click.
\<close>

theorem sound_only_after_click_or_startup:
  "filter is_message (before_first_click (trace (run evs (new_AudioApp env))))
     = filter is_message (trace (new_AudioApp env))
   \<and> length (filter is_message (trace (new_AudioApp env))) \<le> 1"
proof -
  obtain suf where suf: "trace (run evs (new_AudioApp env)) = trace (new_AudioApp env) @ suf" "quiet suf"
    using run_suffix by blast
  have "before_first_click (trace (new_AudioApp env) @ suf)
          = trace (new_AudioApp env) @ before_first_click suf"
    using new_no_click [of env] by (simp add: before_first_click_def takeWhile_append)
  with suf show ?thesis using new_one_message [of env] by (simp add: quiet_def)
qed

section \<open>Retrying a failed initialisation\<close>

text \<open>\<open>initialize\<close> handles every exception itself, so the \<open>catch\<close> of the retry
  handler is never entered: the handler always removes its button.\<close>

lemma initialize_never_rejects: "fst (initialize env s) = None"
  by (simp add: initialize_def split: prod.splits option.splits)

lemma retry_onclick_removes:
  "buttons (retry_onclick b env s) = filter (\<lambda>p. fst p \<noteq> b) (buttons (snd (initialize env s)))"
  using initialize_never_rejects [of env s]
  by (cases "initialize env s") (simp add: retry_onclick_def)

text \<open>The start button of src/main.ts.audio_only does what the retry button is meant to
  do: \<open>initializeCsound\<close> throws again, so a failure relabels the button and keeps it.
  With that file as it is, every first initialisation fails, at the latest at the
  undeclared \<open>csd\<close>.\<close>

lemma startAudioButton_failure_keeps_button:
  assumes "csound s = None"
  shows "buttons (startAudioButton_onclick b env s)
           = map (\<lambda>p. if fst p = b then (fst p, ''Failed - Click to retry'') else p) (buttons s)"
  using assms
  by (simp add: startAudioButton_onclick_def initializeCsound_audio_only_def
      initializeCsound_failed_def observe_def Let_def)

text \<open>
  Claim C6 at its failing input: the engine cannot be created at construction and cannot be
  created when the retry button is clicked. The constructor logs the failure and creates
  button 0; the click removes button 0 and leaves a new button 1 with the first label. The
  label \<open>Failed - Try again\<close> is never shown.
\<close>

theorem retry_failure_replaces_button:
  "buttons (new_AudioApp engine_fails) = [(0, ''Retry Audio Initialization'')]
   \<and> console (new_AudioApp engine_fails) = [''Audio initialization failed:'']
   \<and> buttons (step (RetryClick 0 engine_fails) (new_AudioApp engine_fails))
       = [(1, ''Retry Audio Initialization'')]"
  by (simp add: new_AudioApp_def initialize_def initializeAudio_def observe_def
      engine_fails_def initial_audio_app_def createRetryButton_def retry_onclick_def Let_def)

section \<open>The application after construction\<close>

text \<open>The state that the constructor builds when \<open>debugMode\<close> is off: three lights, the
  floor and the cube in the scene, the floor and the cube's geometry, materials and
  textures in the registry.\<close>

lemma new_App_production:
  "new_App False =
     \<lparr>scene =
        [Object3D 1 None (Vector3 5 5 5) [], Object3D 2 None (Vector3 0 0 0) [],
         Object3D 3 None (Vector3 (- 5) 3 (- 5)) [],
         Object3D 6 (Some (4, SingleMaterial \<lparr>material_id = 5, material_map = None\<rparr>))
           (Vector3 0 0 0) [],
         Object3D 20 (Some (7, MaterialArray cube_materials)) (Vector3 2 4 2) []],
      camera_position = Vector3 5 5 5,
      cube = Object3D 20 (Some (7, MaterialArray cube_materials)) (Vector3 2 4 2) [],
      cube_rotation = Vector3 0 0 0, model = None, model_scale = 1,
      resourceManager =
        \<lparr>textures = [8, 10, 12, 14, 16, 18], geometries = [4, 7],
         materials = \<lparr>material_id = 5, material_map = None\<rparr> # cube_materials\<rparr>,
      disposed = False, debugMode = False,
      animationState = \<lparr>cubeRotating = False, modelScaling = False\<rparr>,
      app_csound = None, timers = [], now = 0, calls = [], app_console = [], errors = [],
      ui = [''stats'', ''instructions''], next_id = 21\<rparr>"
  by (simp add: new_App_def empty_app_def setupLights_def createEnvironment_def createCube_def
      texturePaths_def scene_add_def register_geometry_def register_material_def
      register_texture_def new_object_def new_mesh_def cube_materials_def Let_def)

lemma loaded_app_model:
  "model loaded_app =
     Some (Object3D 100 (Some (101, SingleMaterial \<lparr>material_id = 21, material_map = None\<rparr>))
             (Vector3 (- 2) 1 0) [])
   \<and> cube loaded_app = Object3D 20 (Some (7, MaterialArray cube_materials)) (Vector3 2 4 2) []
   \<and> \<not> disposed loaded_app \<and> timers loaded_app = [] \<and> now loaded_app = 0"
  by (simp add: loaded_app_def loadModel_def loadModel_try_def setupLoadedModel_def
      setupLoadedModel_try_def setupModelMesh_def new_mesh_def register_material_def
      register_geometry_def scene_add_def new_App_production Let_def)

text \<open>The same application after \<open>dispose\<close>.\<close>

lemma disposed_app:
  "disposed (dispose (new_App False))
   \<and> cube (dispose (new_App False)) = Object3D 20 (Some (7, MaterialArray cube_materials)) (Vector3 2 4 2) []
   \<and> timers (dispose (new_App False)) = []
   \<and> now (dispose (new_App False)) = 0
   \<and> \<not> debugMode (dispose (new_App False))
   \<and> app_csound (dispose (new_App False)) = None"
  by (simp add: dispose_def new_App_production resetAnimations_def console_log_def
      disposeThreeJsResources_def clearScene_def cleanupUIComponents_def Let_def)

section \<open>Camera keys\<close>

text \<open>
  Claim C7. For a key whose lower-case name is one of w, s, a, d, q, e, \<open>handleKeyDown\<close>
  changes the camera position and nothing else of the state: the scene, the animation
  state, the registry and every other field are as before (in debug mode the new position
  is also printed on the console). The position moves by 0.1 along one axis: z for w and
  s, x for a and d, y for q and e.
\<close>

theorem handleKeyDown_moves_camera_only:
  assumes "toLowerCase key = k" and "k \<in> set movement_keys"
  shows "handleKeyDown key s =
           s\<lparr>camera_position := vec3_add (camera_position s) (moveDistance k),
             app_console := (if debugMode s then app_console s @ [''Camera position:'']
                             else app_console s)\<rparr>
       \<and> moveDistance k =
           (if k = ''w'' then Vector3 0 0 (- 0.1) else if k = ''s'' then Vector3 0 0 0.1
            else if k = ''a'' then Vector3 (- 0.1) 0 0 else if k = ''d'' then Vector3 0.1 0 0
            else if k = ''q'' then Vector3 0 0.1 0 else Vector3 0 (- 0.1) 0)"
  using assms
  by (auto simp add: handleKeyDown_def movement_keys_def moveDistance_def moveSpeed_def
      lengthSq_def Vector3_def console_log_def Let_def)

theorem handleKeyDown_moves_camera_only_witness: "toLowerCase ''W'' = ''w'' \<and> ''w'' \<in> set movement_keys
  \<and> handleKeyDown ''W'' (new_App False) = (new_App False)\<lparr>camera_position := Vector3 5 5 4.9\<rparr>"
  using handleKeyDown_moves_camera_only [of "''W''" "''w''" "new_App False"]
  by (simp add: toLowerCase_def toLowerCase_char_def movement_keys_def new_App_production
      Vector3_def vec3_add_def)


section \<open>Clicks and animations\<close>

lemma handleClick_disposed [simp]: "disposed (handleClick play intersects s) = disposed s"
  by (simp add: handleClick_def startCubeRotation_def startModelScale_def setTimeout_def
      handleError_def console_log_def Let_def split: list.splits option.splits exception.splits)

lemma handleClick_now [simp]: "now (handleClick play intersects s) = now s"
  by (simp add: handleClick_def startCubeRotation_def startModelScale_def setTimeout_def
      handleError_def console_log_def Let_def split: list.splits option.splits exception.splits)

lemma run_callback_disposed [simp]: "disposed (run_callback cb s) = disposed s"
  by (cases cb) (simp_all add: console_log_def Let_def)

lemma run_callback_keeps_cube_stopped:
  "\<not> cubeRotating (animationState s) \<Longrightarrow> \<not> cubeRotating (animationState (run_callback cb s))"
  by (cases cb) (simp_all add: console_log_def Let_def)

lemma run_callbacks_keep_cube_stopped:
  "\<not> cubeRotating (animationState s) \<Longrightarrow> \<not> cubeRotating (animationState (run_callbacks cbs s))"
  by (induction cbs arbitrary: s) (simp_all add: run_callback_keeps_cube_stopped)

lemma run_callbacks_stop_cube:
  "\<not> disposed s \<Longrightarrow> StopCubeRotation \<in> set cbs
     \<Longrightarrow> \<not> cubeRotating (animationState (run_callbacks cbs s))"
proof (induction cbs arbitrary: s)
  case Nil
  then show ?case by simp
next
  case (Cons cb cbs)
  show ?case
  proof (cases "cb = StopCubeRotation")
    case True
    with Cons.prems have "\<not> cubeRotating (animationState (run_callback cb s))"
      by (simp add: console_log_def Let_def)
    then show ?thesis by (simp add: run_callbacks_keep_cube_stopped)
  next
    case False
    with Cons.prems have "StopCubeRotation \<in> set cbs" by auto
    moreover have "\<not> disposed (run_callback cb s)" using Cons.prems by simp
    ultimately show ?thesis using Cons.IH by simp
  qed
qed

lemma advance_runs_due_timer:
  assumes "(t, cb) \<in> set (timers s)" and "t \<le> now s + dt"
  shows "\<exists>cbs s'. advance dt s = run_callbacks cbs s' \<and> cb \<in> set cbs \<and> disposed s' = disposed s"
proof -
  let ?ready = "filter (\<lambda>p. fst p \<le> now s + dt) (timers s)"
  have "(t, cb) \<in> set ?ready" using assms by simp
  then have "cb \<in> snd ` set ?ready" by force
  then have "cb \<in> set (map snd (sort_key fst ?ready))" by simp
  then show ?thesis unfolding advance_def Let_def
    by (intro exI conjI) (rule refl, assumption, simp)
qed

lemma handleClick_cube:
  assumes "hits_cube intersects s"
  shows "cubeRotating (animationState (handleClick play intersects s))
       \<and> timers (handleClick play intersects s) = timers s @ [(now s + 5000, StopCubeRotation)]"
proof (cases intersects)
  case Nil
  with assms show ?thesis by (simp add: hits_cube_def)
next
  case (Cons hit others)
  with assms have "fst hit = object_id (cube s)" by (simp add: hits_cube_def)
  with Cons show ?thesis
    by (simp add: handleClick_def startCubeRotation_def setTimeout_def
        handleError_def console_log_def Let_def split: option.split exception.split)
qed

text \<open>The cube: as long as the application has not been disposed, a click that hits the
  cube sets \<open>cubeRotating\<close>, schedules exactly one timer, due 5000 ms later, and
  \<open>cubeRotating\<close> is false again once 5000 ms have passed.\<close>

lemma click_on_cube_expires:
  assumes "\<not> disposed s" and "hits_cube intersects s"
  shows "cubeRotating (animationState (handleClick play intersects s))
       \<and> timers (handleClick play intersects s) = timers s @ [(now s + 5000, StopCubeRotation)]
       \<and> \<not> cubeRotating (animationState (advance 5000 (handleClick play intersects s)))"
proof (intro conjI)
  let ?s1 = "handleClick play intersects s"
  show "cubeRotating (animationState ?s1)" using handleClick_cube [OF assms(2)] by simp
  show t: "timers ?s1 = timers s @ [(now s + 5000, StopCubeRotation)]"
    using handleClick_cube [OF assms(2)] by simp
  have "(now s + 5000, StopCubeRotation) \<in> set (timers ?s1)" using t by simp
  moreover have "now s + 5000 \<le> now ?s1 + 5000" by simp
  ultimately obtain cbs s' where a: "advance 5000 ?s1 = run_callbacks cbs s'"
      "StopCubeRotation \<in> set cbs" "disposed s' = disposed ?s1"
    using advance_runs_due_timer by blast
  from a(3) assms(1) have "\<not> disposed s'" by simp
  with a show "\<not> cubeRotating (animationState (advance 5000 ?s1))"
    by (simp add: run_callbacks_stop_cube)
qed

text \<open>The model: \<open>handleClick\<close> starts the scaling only when the nearest intersection is
  the object stored in \<open>model\<close> itself. A click whose nearest intersection is any other
  object, in particular a mesh below the model, starts nothing.\<close>

lemma click_below_model_starts_nothing:
  assumes "model s = Some m" and "fst hit \<noteq> object_id m" and "fst hit \<noteq> object_id (cube s)"
  shows "animationState (handleClick play (hit # others) s) = animationState s
       \<and> timers (handleClick play (hit # others) s) = timers s"
  using assms by (simp add: handleClick_def console_log_def Let_def)

lemma app_with_model_state:
  "model app_with_model =
     Some (Object3D 100 None (Vector3 (- 2) 1 0)
             [Object3D 106 (Some (107, SingleMaterial \<lparr>material_id = 21, material_map = None\<rparr>))
                (Vector3 0 0 0) []])
   \<and> cube app_with_model = Object3D 20 (Some (7, MaterialArray cube_materials)) (Vector3 2 4 2) []
   \<and> \<not> disposed app_with_model \<and> \<not> debugMode app_with_model
   \<and> timers app_with_model = [] \<and> now app_with_model = 0
   \<and> animationState app_with_model = \<lparr>cubeRotating = False, modelScaling = False\<rparr>
   \<and> errors app_with_model = []"
  by (simp add: app_with_model_def loadModel_def loadModel_try_def setupLoadedModel_def
      setupLoadedModel_try_def setupModelMesh_def new_mesh_def register_material_def
      register_geometry_def scene_add_def new_App_production Let_def)

text \<open>
  Claim C1 at its failing input. The model file has been loaded without an error: \<open>model\<close>
  is the group 100 of the file, with the mesh 106 below it. The user clicks on the model:
  the raycaster reports the mesh 106 at distance 2. \<open>handleClick\<close> compares the mesh with
  the group, takes neither branch, and the click leaves \<open>modelScaling\<close> false and
  schedules no timer.
\<close>

theorem click_on_loaded_model_starts_nothing:
  "hits_loaded_model [(106, 2)] app_with_model
   \<and> \<not> disposed app_with_model
   \<and> animationState (handleClick playCsoundEvent_old [(106, 2)] app_with_model)
       = \<lparr>cubeRotating = False, modelScaling = False\<rparr>
   \<and> timers (handleClick playCsoundEvent_old [(106, 2)] app_with_model) = []
   \<and> \<not> modelScaling (animationState
         (advance 5000 (handleClick playCsoundEvent_old [(106, 2)] app_with_model)))"
proof -
  have h: "hits_loaded_model [(106, 2)] app_with_model"
    by (simp add: hits_loaded_model_def app_with_model_state meshes_def)
  have c: "handleClick playCsoundEvent_old [(106, 2)] app_with_model = app_with_model"
    by (simp add: handleClick_def app_with_model_state)
  have a: "advance 5000 app_with_model = app_with_model\<lparr>now := 5000\<rparr>"
    by (simp add: advance_def app_with_model_state)
  show ?thesis using h c a by (simp add: app_with_model_state)
qed

text \<open>A click that is handled after \<open>dispose\<close>: the click sets \<open>cubeRotating\<close>, and the
  timer callback does nothing because of its guard \<open>if (!this.disposed)\<close>. The flag is
  still set however much time passes.\<close>

lemma run_callbacks_disposed: "disposed s \<Longrightarrow> run_callbacks cbs s = s"
proof (induction cbs)
  case Nil
  then show ?case by simp
next
  case (Cons cb cbs)
  then have "run_callback cb s = s" by (cases cb) simp_all
  with Cons show ?case by simp
qed

lemma click_on_disposed_app_never_expires:
  assumes "disposed s" and "hits_cube intersects s"
  shows "cubeRotating (animationState (advance dt (handleClick play intersects s)))"
proof -
  let ?s1 = "handleClick play intersects s"
  have "disposed ?s1" using assms(1) by simp
  then have "animationState (advance dt ?s1) = animationState ?s1"
    by (simp add: advance_def Let_def run_callbacks_disposed)
  then show ?thesis using handleClick_cube [OF assms(2)] by simp
qed

lemma click_after_dispose_never_expires:
  "hits_cube [(20, 1)] (dispose (new_App False))
   \<and> cubeRotating (animationState
        (advance 5000 (handleClick playCsoundEvent_old [(20, 1)] (dispose (new_App False)))))"
  by (simp add: hits_cube_def disposed_app handleClick_def startCubeRotation_def
      setTimeout_def playCsoundEvent_old_def advance_def Let_def)

section \<open>One click, at most one animation\<close>

lemma handleClick_nearest_only:
  "handleClick play intersects s = handleClick play (take 1 intersects) s"
  by (cases intersects) (simp_all add: handleClick_def)

lemma handleClick_animationState:
  "animationState (handleClick play intersects s) =
     (if hits_cube intersects s then (animationState s)\<lparr>cubeRotating := True\<rparr>
      else if hits_model intersects s then (animationState s)\<lparr>modelScaling := True\<rparr>
      else animationState s)"
proof (cases intersects)
  case Nil
  then show ?thesis by (simp add: handleClick_def hits_cube_def hits_model_def)
next
  case (Cons hit others)
  then show ?thesis
    by (simp add: handleClick_def hits_cube_def hits_model_def startCubeRotation_def
        startModelScale_def setTimeout_def handleError_def console_log_def Let_def
        split: option.split exception.split)
qed

lemma handleClick_miss_timers:
  assumes "\<not> hits_cube intersects s" and "\<not> hits_model intersects s"
  shows "timers (handleClick play intersects s) = timers s"
proof (cases intersects)
  case Nil
  then show ?thesis by (simp add: handleClick_def)
next
  case (Cons hit others)
  with assms show ?thesis
    by (cases "model s")
      (simp_all add: handleClick_def hits_cube_def hits_model_def console_log_def Let_def)
qed

lemma loaded_app_animationState:
  "animationState loaded_app = \<lparr>cubeRotating = False, modelScaling = False\<rparr>"
  by (simp add: loaded_app_def loadModel_def loadModel_try_def setupLoadedModel_def
      setupLoadedModel_try_def setupModelMesh_def new_mesh_def register_material_def
      register_geometry_def scene_add_def new_App_production Let_def)

text \<open>
  Claim C10. \<open>handleClick\<close> reads the nearest intersection only. It leaves the animation
  state as it is or sets exactly one of the two flags, so one click never starts both
  animations; a click whose nearest intersection is neither the cube nor the model (in
  particular a click that intersects nothing) changes neither the animation state nor the
  timers.
\<close>

theorem handleClick_starts_at_most_one_animation:
  "(animationState (handleClick play intersects s) = animationState s
      \<or> animationState (handleClick play intersects s) = (animationState s)\<lparr>cubeRotating := True\<rparr>
      \<or> animationState (handleClick play intersects s) = (animationState s)\<lparr>modelScaling := True\<rparr>)
   \<and> handleClick play intersects s = handleClick play (take 1 intersects) s
   \<and> (\<not> hits_cube intersects s \<and> \<not> hits_model intersects s \<longrightarrow>
        animationState (handleClick play intersects s) = animationState s
        \<and> timers (handleClick play intersects s) = timers s)"
proof (intro conjI impI)
  show "animationState (handleClick play intersects s) = animationState s
      \<or> animationState (handleClick play intersects s) = (animationState s)\<lparr>cubeRotating := True\<rparr>
      \<or> animationState (handleClick play intersects s) = (animationState s)\<lparr>modelScaling := True\<rparr>"
    by (simp add: handleClick_animationState)
  show "handleClick play intersects s = handleClick play (take 1 intersects) s"
    by (rule handleClick_nearest_only)
next
  assume "\<not> hits_cube intersects s \<and> \<not> hits_model intersects s"
  then show "animationState (handleClick play intersects s) = animationState s"
    by (simp add: handleClick_animationState)
next
  assume "\<not> hits_cube intersects s \<and> \<not> hits_model intersects s"
  then show "timers (handleClick play intersects s) = timers s"
    by (simp add: handleClick_miss_timers)
qed

theorem handleClick_starts_at_most_one_animation_witness:
  "\<not> hits_cube [] loaded_app \<and> \<not> hits_model [] loaded_app
   \<and> animationState (handleClick playCsoundEvent_old [] loaded_app)
       = \<lparr>cubeRotating = False, modelScaling = False\<rparr>
   \<and> timers (handleClick playCsoundEvent_old [] loaded_app) = []
   \<and> handleClick playCsoundEvent_old [(20, 1), (100, 2)] loaded_app
       = handleClick playCsoundEvent_old [(20, 1)] loaded_app"
  using handleClick_starts_at_most_one_animation [of playCsoundEvent_old "[]" loaded_app]
    handleClick_starts_at_most_one_animation [of playCsoundEvent_old "[(20, 1), (100, 2)]" loaded_app]
  by (simp add: hits_cube_def hits_model_def loaded_app_model loaded_app_animationState)

section \<open>Releasing the resources\<close>

text \<open>The calls that the first \<open>dispose\<close> makes, in order.\<close>

lemma resetAnimations_frame:
  "calls (resetAnimations s) = calls s \<and> scene (resetAnimations s) = scene s
   \<and> resourceManager (resetAnimations s) = resourceManager s
   \<and> app_csound (resetAnimations s) = app_csound s
   \<and> disposed (resetAnimations s) = disposed s"
  by (simp add: resetAnimations_def console_log_def Let_def split: option.split)

lemma calls_dispose:
  assumes "\<not> disposed s"
  shows "calls (dispose s) =
           calls s @ (case app_csound s of None \<Rightarrow> [] | Some h \<Rightarrow> [Engine Stop])
             @ [RemoveEventListener ''resize'', RemoveEventListener ''beforeunload'']
             @ map DisposeTexture (textures (resourceManager s))
             @ map DisposeGeometry (geometries (resourceManager s))
             @ concat (map dispose_material (materials (resourceManager s)))
             @ [RendererDispose, RendererForceContextLoss]
             @ concat (map disposeNode (concat (map traverse (scene s))))"
  using assms resetAnimations_frame [of "(console_log ''Starting application disposal...'' s)\<lparr>disposed := True\<rparr>"]
  by (simp add: dispose_def disposeThreeJsResources_def clearScene_def cleanupUIComponents_def
      console_log_def Let_def split: option.split)

lemma released_eq:
  assumes "\<not> disposed s"
  shows "released s =
           (case app_csound s of None \<Rightarrow> [] | Some h \<Rightarrow> [Engine Stop])
             @ [RemoveEventListener ''resize'', RemoveEventListener ''beforeunload'']
             @ map DisposeTexture (textures (resourceManager s))
             @ map DisposeGeometry (geometries (resourceManager s))
             @ concat (map dispose_material (materials (resourceManager s)))
             @ [RendererDispose, RendererForceContextLoss]
             @ concat (map disposeNode (concat (map traverse (scene s))))"
  by (simp add: released_def calls_dispose [OF assms])

lemma dispose_state:
  assumes "\<not> disposed s"
  shows "disposed (dispose s)
       \<and> resourceManager (dispose s) = \<lparr>textures = [], geometries = [], materials = []\<rparr>"
  using assms resetAnimations_frame [of "(console_log ''Starting application disposal...'' s)\<lparr>disposed := True\<rparr>"]
  by (simp add: dispose_def disposeThreeJsResources_def clearScene_def cleanupUIComponents_def
      console_log_def Let_def split: option.split)

text \<open>
  Claim C2, amended. The first call of \<open>dispose\<close> releases every texture, geometry and
  material of the registry at least once, empties the registry and sets the flag
  \<open>disposed\<close>; every later call changes nothing and releases nothing.
\<close>

theorem dispose_releases_every_handle:
  assumes "\<not> disposed s"
  shows "(\<forall>t \<in> set (textures (resourceManager s)). DisposeTexture t \<in> set (released s))
       \<and> (\<forall>g \<in> set (geometries (resourceManager s)). DisposeGeometry g \<in> set (released s))
       \<and> (\<forall>m \<in> set (materials (resourceManager s)).
             DisposeMaterial (material_id m) \<in> set (released s))
       \<and> calls (dispose s) = calls s @ released s
       \<and> resourceManager (dispose s) = \<lparr>textures = [], geometries = [], materials = []\<rparr>
       \<and> disposed (dispose s)
       \<and> dispose (dispose s) = dispose s
       \<and> released (dispose s) = []"
proof (intro conjI ballI)
  fix t assume "t \<in> set (textures (resourceManager s))"
  then show "DisposeTexture t \<in> set (released s)"
    by (simp add: released_eq [OF assms])
next
  fix g assume "g \<in> set (geometries (resourceManager s))"
  then show "DisposeGeometry g \<in> set (released s)"
    by (simp add: released_eq [OF assms])
next
  fix m assume "m \<in> set (materials (resourceManager s))"
  then have "DisposeMaterial (material_id m)
               \<in> set (concat (map dispose_material (materials (resourceManager s))))"
    by (auto simp add: dispose_material_def)
  then show "DisposeMaterial (material_id m) \<in> set (released s)"
    by (simp add: released_eq [OF assms])
next
  show "calls (dispose s) = calls s @ released s"
    by (simp add: released_eq [OF assms] calls_dispose [OF assms])
  show "resourceManager (dispose s) = \<lparr>textures = [], geometries = [], materials = []\<rparr>"
    using dispose_state [OF assms] by simp
  show d: "disposed (dispose s)" using dispose_state [OF assms] by simp
  show i: "dispose (dispose s) = dispose s" using d by (simp add: dispose_def [of "dispose s"])
  show "released (dispose s) = []" by (simp add: released_def i)
qed

theorem dispose_releases_every_handle_witness:
  "\<not> disposed (new_App False)
   \<and> 8 \<in> set (textures (resourceManager (new_App False)))
   \<and> DisposeTexture 8 \<in> set (released (new_App False))
   \<and> DisposeGeometry 7 \<in> set (released (new_App False))
   \<and> DisposeMaterial 5 \<in> set (released (new_App False))
   \<and> dispose (dispose (new_App False)) = dispose (new_App False)"
  using dispose_releases_every_handle [of "new_App False"]
  by (simp add: new_App_production)

text \<open>
  Claim C2, as stated, fails: a handle can be released more than once by the first
  \<open>dispose\<close>. Texture 8 of the cube is in the registry and is the map of a registered
  material, so it is released with the textures and again with that material; geometry 7
  of the cube is released with the geometries and again by \<open>clearScene\<close>.
\<close>

theorem dispose_releases_texture_twice:
  "8 \<in> set (textures (resourceManager (new_App False)))
   \<and> count_list (released (new_App False)) (DisposeTexture 8) = 2
   \<and> 7 \<in> set (geometries (resourceManager (new_App False)))
   \<and> count_list (released (new_App False)) (DisposeGeometry 7) = 2"
proof -
  have "\<not> disposed (new_App False)" by (simp add: new_App_production)
  then show ?thesis
    by (simp add: released_eq new_App_production dispose_material_def disposeNode_def
        cube_materials_def)
qed

section \<open>Failure of the model fetch\<close>











section \<open>The signal of instrument 1\<close>

text \<open>
  Claim C9. For every amplitude \<open>p4\<close> and frequency \<open>p5\<close>, instrument 1 writes the same
  signal to both channels, and each sample of it is 0.3 times the sum of the samples of
  three oscillators of amplitude \<open>p4\<close> at the frequencies \<open>p5\<close>, \<open>1.5 * p5\<close> and
  \<open>2 * p5\<close>.
\<close>

theorem instr_1_output:
  "fst (instr_1 poscil p4 p5) = snd (instr_1 poscil p4 p5)
   \<and> fst (instr_1 poscil p4 p5) n
       = 0.3 * (poscil p4 p5 n + poscil p4 (1.5 * p5) n + poscil p4 (2 * p5) n)"
  by (simp add: instr_1_def Let_def mult.commute)

end
